theory Spec2Isabelle
  imports Complex_Main "HOL-Library.Sublist" "HOL-Library.AList"
begin

section \<open>The wildcard expansion engine of the Impact Pack\<close>

text \<open>
  The engine is described by the design document
  \<^verbatim>\<open>docs/wildcards/WILDCARD_SYSTEM_DESIGN.md\<close>, the requirements document
  \<^verbatim>\<open>docs/wildcards/WILDCARD_SYSTEM_PRD.md\<close> and the project summary. The Python
  fragments of these documents are embedded below, function by function, under the names
  they carry there. A string is the list of its characters, and a character is a code
  point below 256 (the loader of 7.2 of the design reads the files as ISO-8859-1, one
  character for each byte). Dictionaries are maps or association lists (where the
  iteration order matters), and Python's \<open>None\<close> is \<open>None\<close>.
\<close>

subsection \<open>Python string operations\<close>

text \<open>\<open>needle in text\<close> on strings: \<open>needle\<close> occurs as a contiguous run.\<close>

fun is_infix :: "string \<Rightarrow> string \<Rightarrow> bool" where
  "is_infix needle [] = (needle = [])"
| "is_infix needle (c # cs) = (prefix needle (c # cs) \<or> is_infix needle cs)"

text \<open>\<open>text.split(sep)\<close> for a one-character separator: empty fields are kept.\<close>

fun split_on :: "char \<Rightarrow> string \<Rightarrow> string list" where
  "split_on sep [] = [[]]"
| "split_on sep (c # cs) =
     (if c = sep then [] # split_on sep cs
      else (case split_on sep cs of
              [] \<Rightarrow> [[c]]
            | w # ws \<Rightarrow> (c # w) # ws))"

text \<open>\<open>sep.join(parts)\<close>.\<close>

fun join :: "string \<Rightarrow> string list \<Rightarrow> string" where
  "join sep [] = []"
| "join sep [p] = p"
| "join sep (p # q # ps) = p @ sep @ join sep (q # ps)"

text \<open>
  The characters below 256 that \<open>str.strip()\<close> removes (those for which \<open>str.isspace()\<close>
  holds): tab, line feed, vertical tab, form feed, carriage return, the four separators
  \<open>0x1C..0x1F\<close>, the space, the next-line control \<open>0x85\<close> and the no-break space
  \<open>0xA0\<close>.
\<close>

definition is_space :: "char \<Rightarrow> bool" where
  "is_space c = (c \<in> set [CHR 0x09, CHR 0x0A, CHR 0x0B, CHR 0x0C, CHR 0x0D,
                           CHR 0x1C, CHR 0x1D, CHR 0x1E, CHR 0x1F, CHR 0x20,
                           CHR 0x85, CHR 0xA0])"

definition strip :: "string \<Rightarrow> string" where
  "strip s = rev (dropWhile is_space (rev (dropWhile is_space s)))"





subsection \<open>Key normalization (design, 2.4.2)\<close>


subsection \<open>\<open>os.path.normpath\<close> and \<open>os.path.join\<close> (POSIX)\<close>

text \<open>
  The loop of \<open>posixpath.normpath\<close> over the components of the path: empty and \<open>.\<close>
  components are skipped, a \<open>..\<close> removes the component before it unless there is none
  to remove (a relative path keeps it, an absolute path drops it).
\<close>

fun normpath_comps :: "nat \<Rightarrow> string list \<Rightarrow> string list \<Rightarrow> string list" where
  "normpath_comps initial_slashes new_comps [] = new_comps"
| "normpath_comps initial_slashes new_comps (part # comps) =
     (if part = [] \<or> part = ''.'' then normpath_comps initial_slashes new_comps comps
      else if part \<noteq> ''..'' \<or> (initial_slashes = 0 \<and> new_comps = [])
                \<or> (new_comps \<noteq> [] \<and> last new_comps = ''..'')
        then normpath_comps initial_slashes (new_comps @ [part]) comps
      else if new_comps \<noteq> []
        then normpath_comps initial_slashes (butlast new_comps) comps
      else normpath_comps initial_slashes new_comps comps)"

definition normpath :: "string \<Rightarrow> string" where
  "normpath path =
     (if path = [] then ''.''
      else
        let initial_slashes =
              (if prefix ''/'' path
               then (if prefix ''//'' path \<and> \<not> prefix ''///'' path then 2 else 1)
               else (0 :: nat));
            comps = normpath_comps initial_slashes [] (split_on CHR ''/'' path);
            joined = replicate initial_slashes CHR ''/'' @ join ''/'' comps
        in if joined = [] then ''.'' else joined)"

text \<open>\<open>os.path.join(a, b)\<close>: an absolute \<open>b\<close> replaces \<open>a\<close>.\<close>

definition path_join :: "string \<Rightarrow> string \<Rightarrow> string" where
  "path_join a b =
     (if prefix ''/'' b then b
      else if a = [] \<or> suffix ''/'' a then a @ b
      else a @ ''/'' @ b)"

subsection \<open>The backing files\<close>

text \<open>
  The file system as the engine sees it: \<open>files\<close> maps the path of a readable text file
  to \<open>f.read().splitlines()\<close>, the lines of the file, and every other path (one that
  names nothing, or a directory) to \<open>None\<close>; \<open>wildcards_path\<close> is the configured
  wildcard directory.
\<close>

record env =
  files :: "string \<rightharpoonup> string list"
  wildcards_path :: string

subsection \<open>Path validation (design, 9.1)\<close>

text \<open>
  \<^verbatim>\<open>
  def find_wildcard_file(key):
      safe_key = os.path.normpath(key)
      if '..' in safe_key or safe_key.startswith('/'):
          return None
      file_path = os.path.join(wildcards_path, safe_key)
      if not file_path.startswith(wildcards_path):
          return None
      return file_path
  \<close>
\<close>

definition find_wildcard_file :: "env \<Rightarrow> string \<Rightarrow> string option" where
  "find_wildcard_file e key =
     (let safe_key = normpath key in
      if is_infix ''..'' safe_key \<or> prefix ''/'' safe_key then None
      else
        let file_path = path_join (wildcards_path e) safe_key in
        if \<not> prefix (wildcards_path e) file_path then None
        else Some file_path)"

subsection \<open>Loading a flat file\<close>

text \<open>
  Design, 4.1:
  \<^verbatim>\<open>
  def load_txt_wildcard(file_path):
      with open(file_path) as f:
          lines = f.read().splitlines()
          return [x for x in lines if not x.strip().startswith('#')]
  \<close>
  here on the lines already read.
\<close>

definition load_txt_wildcard :: "string list \<Rightarrow> string list" where
  "load_txt_wildcard lines = filter (\<lambda>x. \<not> prefix ''#'' (strip x)) lines"


subsection \<open>Depth-agnostic matching (design, 2.2.1)\<close>

text \<open>
  \<^verbatim>\<open>
  return (stored_key == search_key or
          stored_key.endswith('/' + search_key) or
          stored_key.startswith(search_key + '/') or
          ('/' + search_key + '/') in stored_key)
  \<close>
\<close>

definition matches_depth_agnostic :: "string \<Rightarrow> string \<Rightarrow> bool" where
  "matches_depth_agnostic stored_key search_key =
     (stored_key = search_key \<or>
      suffix (''/'' @ search_key) stored_key \<or>
      prefix (search_key @ ''/'') stored_key \<or>
      is_infix (''/'' @ search_key @ ''/'') stored_key)"

subsection \<open>The wildcard store (design, 2.4.1 and 2.2.1)\<close>

text \<open>
  The global state of on-demand mode: \<open>loaded_wildcards\<close> maps a key to its options,
  \<open>available_wildcards\<close> maps a key to the path of its file. The second dictionary is
  iterated by the fallback, so it is kept as the list of its items in insertion order.
\<close>

record store =
  loaded_wildcards :: "string \<rightharpoonup> string list"
  available_wildcards :: "(string \<times> string) list"

text \<open>
  What Python raises where the fragments can fail: \<open>open\<close> of a path that is no readable
  file is an \<open>OSError\<close> (a \<open>FileNotFoundError\<close>, or an \<open>IsADirectoryError\<close> for a
  directory), \<open>list.extend(None)\<close> is a \<open>TypeError\<close>, and a recursion deeper than the
  interpreter allows is a \<open>RecursionError\<close>.
\<close>

datatype error = OSError | TypeError | RecursionError

text \<open>
  The loop of the fallback,
  \<^verbatim>\<open>
  all_options = []
  for mk in matched_keys:
      all_options.extend(get_wildcard_value(mk))
  \<close>
  over a given lookup function, which may change the store.
\<close>

fun combine_matched ::
  "(store \<Rightarrow> string \<Rightarrow> (error + string list option) \<times> store) \<Rightarrow>
   store \<Rightarrow> string list \<Rightarrow> string list \<Rightarrow> (error + string list) \<times> store" where
  "combine_matched lookup st all_options [] = (Inr all_options, st)"
| "combine_matched lookup st all_options (mk # mks) =
     (case lookup st mk of
        (Inl err, st') \<Rightarrow> (Inl err, st')
      | (Inr None, st') \<Rightarrow> (Inl TypeError, st')
      | (Inr (Some opts), st') \<Rightarrow> combine_matched lookup st' (all_options @ opts) mks)"

text \<open>
  \<^verbatim>\<open>
  def get_wildcard_value(key):
      # Phase 1: Direct lookup
      if key in loaded_wildcards:
          return loaded_wildcards[key]
      # Phase 2: File discovery
      file_path = find_wildcard_file(key)
      if file_path:
          load and cache
          return data
      # Phase 3: Depth-agnostic fallback
      matched_keys = []
      for k in available_wildcards:
          if matches_depth_agnostic(k, key):
              matched_keys.append(k)
      if matched_keys:
          all_options = []
          for mk in matched_keys:
              all_options.extend(get_wildcard_value(mk))
          loaded_wildcards[key] = all_options
          return all_options
      return None
  \<close>
  The function calls itself; the first argument bounds the depth of the calls that are
  left, and running out of it is the \<open>RecursionError\<close>. ``Load and cache'' is the
  loader of 4.1 on the path that \<open>find_wildcard_file\<close> returned, whose \<open>open\<close> raises when
  the path is no readable file, followed by \<open>loaded_wildcards[key] = data\<close>.
\<close>

primrec get_wildcard_value ::
  "nat \<Rightarrow> env \<Rightarrow> store \<Rightarrow> string \<Rightarrow> (error + string list option) \<times> store" where
  "get_wildcard_value 0 e st key = (Inl RecursionError, st)"
| "get_wildcard_value (Suc depth) e st key =
     (case loaded_wildcards st key of
        Some opts \<Rightarrow> (Inr (Some opts), st)
      | None \<Rightarrow>
          (case find_wildcard_file e key of
             Some file_path \<Rightarrow>
               (case files e file_path of
                  None \<Rightarrow> (Inl OSError, st)
                | Some lines \<Rightarrow>
                    (let data = load_txt_wildcard lines in
                     (Inr (Some data),
                      st\<lparr>loaded_wildcards := (loaded_wildcards st)(key \<mapsto> data)\<rparr>)))
           | None \<Rightarrow>
               (let matched_keys =
                      filter (\<lambda>k. matches_depth_agnostic k key)
                        (map fst (available_wildcards st)) in
                if matched_keys \<noteq> [] then
                  (case combine_matched (get_wildcard_value depth e) st [] matched_keys of
                     (Inl err, st') \<Rightarrow> (Inl err, st')
                   | (Inr all_options, st') \<Rightarrow>
                       (Inr (Some all_options),
                        st'\<lparr>loaded_wildcards := (loaded_wildcards st')(key \<mapsto> all_options)\<rparr>))
                else (Inr None, st))))"

subsection \<open>The comment stripper (requirements, 2.1 ``Comments'')\<close>

text \<open>
  The body of \<open>process_comment_out\<close> is not part of the documents; the requirements
  describe it: ``Lines starting with \<open>#\<close> are treated as comments and removed. Text
  following a comment is separated by single blank space from text before comment'',
  with the example
  \<^verbatim>\<open>
  first {a|b|c} second # not a comment,
  # this is a comment
  trailing text
  \<close>
  which becomes \<^verbatim>\<open>first a second # not a comment, trailing text\<close>.
  The loop below keeps the lines that do not start with \<open>#\<close>; \<open>flag\<close> records that
  a comment was dropped since the last kept line, and the next kept line is then appended
  to the last one after one space. Lines with no comment between them stay separate.

  The requirements leave two points open, which are fixed here as follows: a line is a
  comment when \<open>#\<close> is its very first character (a line whose \<open>#\<close> comes after blanks
  is kept), and the first kept line clears \<open>flag\<close> (comment lines above the first kept
  line leave no space behind). What is proved of the stripper below is stated for the
  inputs on which neither point can be told: a kept line has a first non-blank character
  other than \<open>#\<close>, a comment line starts with \<open>#\<close>, and no comment line stands above
  two kept lines.
\<close>

fun comment_out_lines :: "bool \<Rightarrow> string list \<Rightarrow> string list \<Rightarrow> string list" where
  "comment_out_lines flag lines0 [] = lines0"
| "comment_out_lines flag lines0 (line # lines) =
     (if prefix ''#'' line then comment_out_lines True lines0 lines
      else if lines0 = [] then comment_out_lines False [line] lines
      else if flag
        then comment_out_lines False (butlast lines0 @ [last lines0 @ '' '' @ line]) lines
      else comment_out_lines False (lines0 @ [line]) lines)"

definition process_comment_out :: "string \<Rightarrow> string" where
  "process_comment_out text =
     join [CHR 0x0A] (comment_out_lines False [] (split_on (CHR 0x0A) text))"


subsection \<open>The orchestrator (design, 2.1.1 and 7.3)\<close>

text \<open>
  \<open>random.seed(seed)\<close>: an integer seed sets the generator to a state that is a function
  of that integer (\<open>from_seed\<close>); \<open>None\<close> seeds it from the entropy of the operating
  system, a value the program does not choose (\<open>entropy\<close>).
\<close>

definition random_seed :: "(int \<Rightarrow> 'g) \<Rightarrow> 'g \<Rightarrow> int option \<Rightarrow> 'g" where
  "random_seed from_seed entropy seed =
     (case seed of None \<Rightarrow> entropy | Some n \<Rightarrow> from_seed n)"

text \<open>
  One pass is \<open>replace_options\<close> followed by \<open>replace_wildcard\<close> (steps 3 and 4 of
  2.1.1). Both read and change the state \<open>'s\<close> of the engine: the random generator and
  the wildcard store.
\<close>

definition process_one_pass ::
  "('s \<Rightarrow> string \<Rightarrow> string \<times> 's) \<Rightarrow> ('s \<Rightarrow> string \<Rightarrow> string \<times> 's) \<Rightarrow>
   's \<Rightarrow> string \<Rightarrow> string \<times> 's" where
  "process_one_pass replace_options replace_wildcard s text =
     (let (text1, s1) = replace_options s text in replace_wildcard s1 text1)"

definition max_iterations :: nat where
  "max_iterations = 100"

text \<open>
  \<^verbatim>\<open>
  for i in range(max_iterations):
      new_text = process_one_pass(text)
      if new_text == text:
          break  # No changes, done
      text = new_text
  return text
  \<close>
  The first argument of the loop is the number of iterations that are left. Besides the
  text the model returns the state and the number of passes that were run.
\<close>

fun process_loop ::
  "('s \<Rightarrow> string \<Rightarrow> string \<times> 's) \<Rightarrow> nat \<Rightarrow> 's \<Rightarrow> string \<Rightarrow> string \<times> 's \<times> nat" where
  "process_loop one_pass 0 s text = (text, s, 0)"
| "process_loop one_pass (Suc n) s text =
     (let (new_text, s1) = one_pass s text in
      if new_text = text then (text, s1, 1)
      else (let (out, s2, k) = process_loop one_pass n s1 new_text in (out, s2, Suc k)))"

text \<open>
  \<^verbatim>\<open>
  def process(text, seed=None):
      1. process_comment_out(text)     # Remove # comments
      2. random.seed(seed)              # Deterministic generation
      3. replace_options(text)          # Process {a|b|c}
      4. replace_wildcard(text)         # Process __wildcard__
      5. return processed_text
  \<close>
  with steps 3 and 4 in the loop of 7.3. The state of a pass is the generator together
  with the store \<open>st\<close>.
\<close>

definition process ::
  "('g \<times> 'st \<Rightarrow> string \<Rightarrow> string \<times> ('g \<times> 'st)) \<Rightarrow>
   ('g \<times> 'st \<Rightarrow> string \<Rightarrow> string \<times> ('g \<times> 'st)) \<Rightarrow>
   (int \<Rightarrow> 'g) \<Rightarrow> 'g \<Rightarrow> 'st \<Rightarrow> string \<Rightarrow> int option \<Rightarrow> string" where
  "process replace_options replace_wildcard from_seed entropy st text seed =
     (let text0 = process_comment_out text;
          g = random_seed from_seed entropy seed
      in fst (process_loop (process_one_pass replace_options replace_wildcard)
                max_iterations (g, st) text0))"

text \<open>The text and the state after \<open>n\<close> passes run one after the other, with no test.\<close>

fun run_passes ::
  "('s \<Rightarrow> string \<Rightarrow> string \<times> 's) \<Rightarrow> nat \<Rightarrow> 's \<Rightarrow> string \<Rightarrow> string \<times> 's" where
  "run_passes one_pass 0 s text = (text, s)"
| "run_passes one_pass (Suc n) s text =
     (let (new_text, s1) = one_pass s text in run_passes one_pass n s1 new_text)"

subsection \<open>A cyclic index\<close>

text \<open>
  The pass of the cycle safety scenario: wildcard \<open>A\<close> has the one option \<^verbatim>\<open>__B__\<close> and
  wildcard \<open>B\<close> the one option \<^verbatim>\<open>__A__\<close>, so a text that is one of the two
  references is replaced by the other, and any other text is left as it is.
\<close>

definition cyclic_pass :: "'s \<Rightarrow> string \<Rightarrow> string \<times> 's" where
  "cyclic_pass s text =
     (if text = ''__A__'' then ''__B__'' else if text = ''__B__'' then ''__A__'' else text, s)"

subsection \<open>Weighted selection in a dynamic-option block (design, 2.1.2)\<close>

text \<open>
  Modelled from the spec: the body of \<open>replace_options\<close> (in
  \<^verbatim>\<open>modules/impact/wildcards.py\<close>) is not among the sources. The design lists its steps:
  parse the weight prefix (\<open>::\<close>), calculate normalized probabilities, use
  \<open>np.random.choice()\<close> with the probabilities. The spec and the requirements fix the
  syntax: a segment \<open>weight::text\<close> has the weight before the \<open>::\<close>, the weight is a
  non-negative number written as an integer or a simple decimal, a segment without a
  weight counts 1, and a block \<^verbatim>\<open>{common::10|rare::1}\<close> has equal weights.
\<close>

text \<open>Modelled from the spec: the digits \<open>0\<close> to \<open>9\<close> and the value of a run of digits.\<close>

definition is_digit :: "char \<Rightarrow> bool" where
  "is_digit c = (48 \<le> (of_char c :: nat) \<and> (of_char c :: nat) \<le> 57)"

fun digits_value :: "nat \<Rightarrow> string \<Rightarrow> nat" where
  "digits_value acc [] = acc"
| "digits_value acc (c # cs) = digits_value (10 * acc + ((of_char c :: nat) - 48)) cs"

text \<open>
  Modelled from the spec: a weight is an integer or a simple decimal (\<open>5\<close>, \<open>10\<close>,
  \<open>0.5\<close>): digits, or digits, a point and digits.
\<close>

definition is_numeric_string :: "string \<Rightarrow> bool" where
  "is_numeric_string s =
     (case split_on CHR ''.'' s of
        [a] \<Rightarrow> a \<noteq> [] \<and> list_all is_digit a
      | [a, b] \<Rightarrow> a \<noteq> [] \<and> b \<noteq> [] \<and> list_all is_digit a \<and> list_all is_digit b
      | _ \<Rightarrow> False)"

definition parse_number :: "string \<Rightarrow> rat" where
  "parse_number s =
     (case split_on CHR ''.'' s of
        [a, b] \<Rightarrow> of_nat (digits_value 0 a) + of_nat (digits_value 0 b) / 10 ^ length b
      | _ \<Rightarrow> of_nat (digits_value 0 s))"

text \<open>
  Modelled from the spec: a segment is split at its first \<open>::\<close>; the part before it is
  the weight when it is a number, and then the part after it is the option. In every
  other case the whole segment is the option and its weight is 1.
\<close>

fun find_weight_sep :: "string \<Rightarrow> (string \<times> string) option" where
  "find_weight_sep [] = None"
| "find_weight_sep (c # cs) =
     (if prefix ''::'' (c # cs) then Some ([], drop 2 (c # cs))
      else map_option (\<lambda>(w, rest). (c # w, rest)) (find_weight_sep cs))"

definition parse_weight :: "string \<Rightarrow> rat \<times> string" where
  "parse_weight segment =
     (case find_weight_sep segment of
        None \<Rightarrow> (1, segment)
      | Some (w, option_text) \<Rightarrow>
          if is_numeric_string (strip w) then (parse_number (strip w), option_text)
          else (1, segment))"

text \<open>
  Modelled from the spec: the probability of an option is its own weight divided by the
  sum of all weights of the block.
\<close>

definition normalized_probabilities :: "rat list \<Rightarrow> rat list" where
  "normalized_probabilities weights = map (\<lambda>w. w / sum_list weights) weights"

text \<open>
  Modelled from the spec: \<open>np.random.choice\<close> with probabilities, for one draw: the
  index whose share of the unit interval holds the uniform variate \<open>u\<close>, the shares
  being laid out in the order of the options.
\<close>

fun choice_index :: "rat list \<Rightarrow> rat \<Rightarrow> nat" where
  "choice_index [] u = 0"
| "choice_index (p # ps) u = (if u < p then 0 else Suc (choice_index ps (u - p)))"

text \<open>
  Modelled from the spec: the options of a block are its \<open>|\<close>-separated segments, and the
  block is replaced by the option that is drawn.
\<close>

definition weighted_options :: "string \<Rightarrow> (rat \<times> string) list" where
  "weighted_options body = map parse_weight (split_on CHR ''|'' body)"

definition select_option :: "string \<Rightarrow> rat \<Rightarrow> string" where
  "select_option body u =
     (let options = weighted_options body;
          probabilities = normalized_probabilities (map fst options);
          i = choice_index probabilities u
      in if i < length options then snd (options ! i) else [])"

subsection \<open>Metadata scanning (design, 2.3.2)\<close>



subsection \<open>Successive calls\<close>

text \<open>
  The generator and the store are global. \<open>process_call\<close> is \<open>process\<close> with its effect
  on them: \<open>s\<close> is the generator and the store that the call finds, and the result is the
  returned text with the generator and the store that the call leaves behind.
  \<open>random.seed(seed)\<close> replaces the generator that the call finds; the store is taken as
  it is, with everything that earlier calls have loaded into it.
\<close>

definition process_call ::
  "('g \<times> 'st \<Rightarrow> string \<Rightarrow> string \<times> ('g \<times> 'st)) \<Rightarrow>
   ('g \<times> 'st \<Rightarrow> string \<Rightarrow> string \<times> ('g \<times> 'st)) \<Rightarrow>
   (int \<Rightarrow> 'g) \<Rightarrow> 'g \<Rightarrow> 'g \<times> 'st \<Rightarrow> string \<Rightarrow> int option \<Rightarrow> string \<times> ('g \<times> 'st)" where
  "process_call replace_options replace_wildcard from_seed entropy s text seed =
     (let text0 = process_comment_out text;
          g = random_seed from_seed entropy seed;
          (out, s', k) = process_loop (process_one_pass replace_options replace_wildcard)
                           max_iterations (g, snd s) text0
      in (out, s'))"


section \<open>Facts about splitting and joining\<close>

lemma split_on_nonempty: "split_on c s \<noteq> []"
  by (induction s) (auto split: list.splits)





section \<open>The pass ceiling\<close>

text \<open>
  The loop against the unbounded sequence of passes: it runs \<open>k \<le> n\<close> passes and returns
  the text and state after them, each pass before the last changed the text, and when it
  stops before the ceiling the last pass left the text as it was.
\<close>

lemma process_loop_spec:
  "process_loop one_pass n s text = (out, s', k) \<Longrightarrow>
     k \<le> n \<and> (0 < n \<longrightarrow> 0 < k) \<and> run_passes one_pass k s text = (out, s') \<and>
     (\<forall>j. Suc j < k \<longrightarrow>
        fst (run_passes one_pass (Suc j) s text) \<noteq> fst (run_passes one_pass j s text)) \<and>
     (k < n \<longrightarrow>
        fst (run_passes one_pass k s text) = fst (run_passes one_pass (k - 1) s text))"
proof (induction n arbitrary: s "text" out s' k)
  case 0
  then show ?case by simp
next
  case (Suc n)
  obtain nt s1 where p: "one_pass s text = (nt, s1)" by (cases "one_pass s text")
  show ?case
  proof (cases "nt = text")
    case True
    with Suc.prems p show ?thesis by auto
  next
    case False
    obtain o2 s2 k2 where r: "process_loop one_pass n s1 nt = (o2, s2, k2)"
      by (cases "process_loop one_pass n s1 nt")
    from Suc.prems p False r have eq: "out = o2" "s' = s2" "k = Suc k2" by simp_all
    note ih = Suc.IH [OF r]
    have a: "k \<le> Suc n" using ih eq by simp
    have b: "run_passes one_pass k s text = (out, s')" using ih eq p by simp
    have c: "fst (run_passes one_pass (Suc j) s text) \<noteq> fst (run_passes one_pass j s text)"
      if "Suc j < k" for j
    proof (cases j)
      case 0
      then show ?thesis using p False by simp
    next
      case (Suc j')
      with that eq have "Suc j' < k2" by simp
      with ih have "fst (run_passes one_pass (Suc j') s1 nt) \<noteq> fst (run_passes one_pass j' s1 nt)"
        by blast
      then show ?thesis using Suc p by simp
    qed
    have d: "fst (run_passes one_pass k s text) = fst (run_passes one_pass (k - 1) s text)"
      if "k < Suc n"
    proof -
      from that eq have lt: "k2 < n" by simp
      with ih have pos: "0 < k2" by simp
      then obtain k3 where k3: "k2 = Suc k3" by (cases k2) simp_all
      from ih lt have "fst (run_passes one_pass k2 s1 nt) = fst (run_passes one_pass (k2 - 1) s1 nt)"
        by blast
      then show ?thesis using eq p k3 by simp
    qed
    from a b c d eq show ?thesis by simp
  qed
qed

text \<open>
  C1. \<open>process\<close> always returns, after at least one and at most 100 passes: the result is
  the text after \<open>k \<le> 100\<close> passes over the stripped input, every pass before the last
  one changed the text (the loop stops at the first pass that changes nothing), and when
  fewer than 100 passes were run the last one left the text unchanged. When the ceiling is
  hit the text after the 100th pass is returned as it is.
\<close>

theorem process_pass_ceiling:
  "(let one_pass = process_one_pass replace_options replace_wildcard;
        s0 = (random_seed from_seed entropy seed, st);
        text0 = process_comment_out text
    in \<exists>k. 0 < k \<and> k \<le> 100 \<and>
         process replace_options replace_wildcard from_seed entropy st text seed
           = fst (run_passes one_pass k s0 text0) \<and>
         (\<forall>j. Suc j < k \<longrightarrow>
            fst (run_passes one_pass (Suc j) s0 text0) \<noteq> fst (run_passes one_pass j s0 text0)) \<and>
         (k < 100 \<longrightarrow>
            fst (run_passes one_pass k s0 text0) = fst (run_passes one_pass (k - 1) s0 text0)))"
proof -
  define one_pass where "one_pass = process_one_pass replace_options replace_wildcard"
  define s0 where "s0 = (random_seed from_seed entropy seed, st)"
  define text0 where "text0 = process_comment_out text"
  obtain out s' k where r: "process_loop one_pass 100 s0 text0 = (out, s', k)"
    by (cases "process_loop one_pass 100 s0 text0")
  have p: "process replace_options replace_wildcard from_seed entropy st text seed = out"
    using r unfolding process_def Let_def max_iterations_def one_pass_def s0_def text0_def
    by simp
  from process_loop_spec [OF r]
  have 1: "k \<le> 100"
    and 2: "0 < (100::nat) \<longrightarrow> 0 < k"
    and 3: "run_passes one_pass k s0 text0 = (out, s')"
    and 4: "\<forall>j. Suc j < k \<longrightarrow>
        fst (run_passes one_pass (Suc j) s0 text0) \<noteq> fst (run_passes one_pass j s0 text0)"
    and 5: "k < 100 \<longrightarrow>
        fst (run_passes one_pass k s0 text0) = fst (run_passes one_pass (k - 1) s0 text0)"
    by blast+
  from 2 have pos: "0 < k" by simp
  from 3 p have out: "process replace_options replace_wildcard from_seed entropy st text seed
       = fst (run_passes one_pass k s0 text0)" by simp
  from pos 1 out 4 5 have
    "\<exists>k. 0 < k \<and> k \<le> 100 \<and>
     process replace_options replace_wildcard from_seed entropy st text seed
       = fst (run_passes one_pass k s0 text0) \<and>
     (\<forall>j. Suc j < k \<longrightarrow>
        fst (run_passes one_pass (Suc j) s0 text0) \<noteq> fst (run_passes one_pass j s0 text0)) \<and>
     (k < 100 \<longrightarrow>
        fst (run_passes one_pass k s0 text0) = fst (run_passes one_pass (k - 1) s0 text0))"
    by blast
  then show ?thesis
    unfolding Let_def one_pass_def s0_def text0_def .
qed

theorem process_pass_ceiling_witness:
  "process (\<lambda>s t. (t, s)) cyclic_pass (\<lambda>n. n) 0 () ''__A__'' (Some 1) = ''__A__''
   \<and> (\<exists>k. 0 < k \<and> k \<le> 100 \<and>
         process (\<lambda>s t. (t, s)) cyclic_pass (\<lambda>n. n) 0 () ''__A__'' (Some 1)
           = fst (run_passes (process_one_pass (\<lambda>s t. (t, s)) cyclic_pass) k
                   (random_seed (\<lambda>n. n) 0 (Some 1), ()) (process_comment_out ''__A__'')))"
proof
  show "process (\<lambda>s t. (t, s)) cyclic_pass (\<lambda>n. n) 0 () ''__A__'' (Some 1) = ''__A__''"
    by (simp add: process_def process_comment_out_def random_seed_def max_iterations_def
        process_one_pass_def cyclic_pass_def eval_nat_numeral)
  show "\<exists>k. 0 < k \<and> k \<le> 100 \<and>
         process (\<lambda>s t. (t, s)) cyclic_pass (\<lambda>n. n) 0 () ''__A__'' (Some 1)
           = fst (run_passes (process_one_pass (\<lambda>s t. (t, s)) cyclic_pass) k
                   (random_seed (\<lambda>n. n) 0 (Some 1), ()) (process_comment_out ''__A__''))"
    using process_pass_ceiling
      [of "\<lambda>s t. (t, s)" cyclic_pass "\<lambda>n. n" 0 "Some 1" "()" "''__A__''"]
    unfolding Let_def by blast
qed

section \<open>Weighted selection\<close>

lemma find_weight_sep_append:
  "CHR '':'' \<notin> set w \<Longrightarrow> find_weight_sep (w @ CHR '':'' # CHR '':'' # rest) = Some (w, rest)"
  by (induction w) auto

lemma find_weight_sep_None: "\<not> is_infix ''::'' s \<Longrightarrow> find_weight_sep s = None"
  by (induction s) auto

lemma set_split_on_elem:
  "x \<in> set s \<Longrightarrow> x = c \<or> (\<exists>w \<in> set (split_on c s). x \<in> set w)"
proof (induction s)
  case Nil
  then show ?case by simp
next
  case (Cons a s)
  obtain w ws where w: "split_on c s = w # ws"
    using split_on_nonempty [of c s] by (cases "split_on c s") simp_all
  show ?case
  proof (cases "x = a")
    case True
    then show ?thesis using w by auto
  next
    case False
    with Cons.prems have "x \<in> set s" by simp
    from Cons.IH [OF this] show ?thesis using w by auto
  qed
qed

lemma set_split_on: "set s \<subseteq> insert c (\<Union>(set ` set (split_on c s)))"
  using set_split_on_elem [of _ s c] by auto

lemma numeric_chars:
  assumes "is_numeric_string w"
  shows "\<forall>c \<in> set w. is_digit c \<or> c = CHR ''.''" and "w \<noteq> []"
proof -
  have sub: "set w \<subseteq> insert CHR ''.'' (\<Union>(set ` set (split_on CHR ''.'' w)))"
    by (rule set_split_on)
  from assms have "\<forall>part \<in> set (split_on CHR ''.'' w). list_all is_digit part"
    by (auto simp: is_numeric_string_def split: list.splits)
  with sub show "\<forall>c \<in> set w. is_digit c \<or> c = CHR ''.''"
    by (auto simp: list_all_iff)
  from assms show "w \<noteq> []"
    by (auto simp: is_numeric_string_def split: list.splits)
qed

lemma strip_no_space: "\<forall>c \<in> set w. \<not> is_space c \<Longrightarrow> strip w = w"
proof -
  assume a: "\<forall>c \<in> set w. \<not> is_space c"
  then have 1: "dropWhile is_space w = w" by (cases w) auto
  from a have "\<forall>c \<in> set (rev w). \<not> is_space c" by simp
  then have 2: "dropWhile is_space (rev w) = rev w" by (cases "rev w") auto
  show ?thesis by (simp add: strip_def 1 2)
qed

lemma numeric_plain:
  assumes "is_numeric_string w"
  shows "CHR '':'' \<notin> set w" and "strip w = w"
proof -
  note ch = numeric_chars(1) [OF assms]
  show "CHR '':'' \<notin> set w"
  proof
    assume "CHR '':'' \<in> set w"
    with ch have "is_digit CHR '':'' \<or> CHR '':'' = CHR ''.''" by blast
    then show False by (simp add: is_digit_def)
  qed
  have "\<not> is_space c" if "c \<in> set w" for c
  proof -
    from ch that have "is_digit c \<or> c = CHR ''.''" by blast
    then show ?thesis by (auto simp: is_digit_def is_space_def)
  qed
  then show "strip w = w" by (intro strip_no_space) blast
qed

lemma parse_weight_weighted:
  "is_numeric_string w \<Longrightarrow> parse_weight (w @ ''::'' @ option_text) = (parse_number w, option_text)"
  by (simp add: parse_weight_def find_weight_sep_append numeric_plain)

lemma parse_weight_unmarked:
  "\<not> is_infix ''::'' segment \<Longrightarrow> parse_weight segment = (1, segment)"
  by (simp add: parse_weight_def find_weight_sep_None)

lemma parse_weight_text_first:
  "CHR '':'' \<notin> set t \<Longrightarrow> \<not> is_numeric_string (strip t) \<Longrightarrow>
     parse_weight (t @ ''::'' @ w) = (1, t @ ''::'' @ w)"
  by (simp add: parse_weight_def find_weight_sep_append)

lemma choice_index_interval:
  "\<forall>p \<in> set ps. 0 \<le> p \<Longrightarrow> i < length ps \<Longrightarrow> 0 \<le> u \<Longrightarrow>
     (choice_index ps u = i) = (sum_list (take i ps) \<le> u \<and> u < sum_list (take i ps) + ps ! i)"
proof (induction ps arbitrary: i u)
  case Nil
  then show ?case by simp
next
  case (Cons p ps)
  show ?case
  proof (cases i)
    case 0
    with Cons.prems show ?thesis by simp
  next
    case (Suc j)
    have nn: "0 \<le> sum_list (take j ps)"
      using Cons.prems(1) by (intro sum_list_nonneg) (auto dest: in_set_takeD)
    show ?thesis
    proof (cases "u < p")
      case True
      with Suc nn Cons.prems show ?thesis by simp
    next
      case False
      then have "0 \<le> u - p" by simp
      with Cons.IH [of j "u - p"] Cons.prems Suc
      have "(choice_index ps (u - p) = j)
          = (sum_list (take j ps) \<le> u - p \<and> u - p < sum_list (take j ps) + ps ! j)"
        by simp
      with False Suc show ?thesis by auto
    qed
  qed
qed

lemma parse_number_nonneg: "0 \<le> parse_number s"
  by (simp add: parse_number_def split: list.splits)

lemma parse_weight_nonneg: "0 \<le> fst (parse_weight segment)"
  by (simp add: parse_weight_def parse_number_nonneg split: option.splits prod.splits)

text \<open>
  C5. A segment \<open>w::text\<close> with a number \<open>w\<close> is the option \<open>text\<close> with weight \<open>w\<close>; a
  segment without \<open>::\<close> is an option of weight 1; a segment \<open>text::w\<close>, whose part before
  the \<open>::\<close> is no number, is an option of weight 1 as a whole. The draw selects option
  \<open>i\<close> exactly when the uniform variate falls into an interval of length
  \<open>weight i / sum of the weights\<close>, so that is the probability of the option.
\<close>

theorem weighted_selection_probability:
  "(is_numeric_string w \<longrightarrow>
      parse_weight (w @ ''::'' @ option_text) = (parse_number w, option_text))
   \<and> (\<not> is_infix ''::'' segment \<longrightarrow> parse_weight segment = (1, segment))
   \<and> (CHR '':'' \<notin> set t \<and> \<not> is_numeric_string (strip t) \<longrightarrow>
        parse_weight (t @ ''::'' @ w') = (1, t @ ''::'' @ w'))
   \<and> (0 < sum_list (map fst (weighted_options body)) \<and> i < length (weighted_options body)
        \<and> 0 \<le> u \<longrightarrow>
        (choice_index (normalized_probabilities (map fst (weighted_options body))) u = i)
          = (sum_list (take i (normalized_probabilities (map fst (weighted_options body)))) \<le> u
             \<and> u < sum_list (take i (normalized_probabilities (map fst (weighted_options body))))
                     + fst (weighted_options body ! i)
                       / sum_list (map fst (weighted_options body))))"
proof (intro conjI impI)
  assume a: "0 < sum_list (map fst (weighted_options body)) \<and> i < length (weighted_options body)
        \<and> 0 \<le> u"
  let ?ws = "map fst (weighted_options body)"
  have "\<forall>p \<in> set (normalized_probabilities ?ws). 0 \<le> p"
    using a by (auto simp: normalized_probabilities_def weighted_options_def parse_weight_nonneg)
  moreover have "i < length (normalized_probabilities ?ws)"
    using a by (simp add: normalized_probabilities_def)
  moreover have "normalized_probabilities ?ws ! i = fst (weighted_options body ! i) / sum_list ?ws"
    using a by (simp add: normalized_probabilities_def)
  ultimately show "(choice_index (normalized_probabilities ?ws) u = i)
          = (sum_list (take i (normalized_probabilities ?ws)) \<le> u
             \<and> u < sum_list (take i (normalized_probabilities ?ws))
                     + fst (weighted_options body ! i) / sum_list ?ws)"
    using a choice_index_interval [of "normalized_probabilities ?ws" i u] by simp
qed (use parse_weight_weighted [of w option_text] parse_weight_unmarked [of segment]
      parse_weight_text_first [of t w'] in simp_all)

theorem weighted_selection_probability_witness:
  "weighted_options ''10::common|1::rare'' = [(10, ''common''), (1, ''rare'')]
   \<and> normalized_probabilities (map fst (weighted_options ''10::common|1::rare'')) = [10 / 11, 1 / 11]
   \<and> weighted_options ''common::10|rare::1'' = [(1, ''common::10''), (1, ''rare::1'')]
   \<and> normalized_probabilities (map fst (weighted_options ''common::10|rare::1'')) = [1 / 2, 1 / 2]
   \<and> choice_index (normalized_probabilities (map fst (weighted_options ''10::common|1::rare''))) (1 / 2) = 0
   \<and> select_option ''10::common|1::rare'' (1 / 2) = ''common''
   \<and> select_option ''10::common|1::rare'' (21 / 22) = ''rare''"
  using weighted_selection_probability
    [of "''10''" "''common''" "''rare''" "''common''" "''10''" "''10::common|1::rare''" 0 "1 / 2"]
  by (simp add: weighted_options_def parse_weight_def is_numeric_string_def parse_number_def
      strip_def is_space_def is_digit_def normalized_probabilities_def select_option_def Let_def)

section \<open>Two calls one after the other\<close>



lemma process_call_loop:
  "process_call replace_options replace_wildcard from_seed entropy s text seed =
     (fst (process_loop (process_one_pass replace_options replace_wildcard) max_iterations
             (random_seed from_seed entropy seed, snd s) (process_comment_out text)),
      fst (snd (process_loop (process_one_pass replace_options replace_wildcard) max_iterations
             (random_seed from_seed entropy seed, snd s) (process_comment_out text))))"
  by (simp add: process_call_def split_def Let_def)

lemma process_call_text:
  "fst (process_call replace_options replace_wildcard from_seed entropy s text seed)
     = process replace_options replace_wildcard from_seed entropy (snd s) text seed"
  by (simp add: process_call_loop process_def Let_def)





section \<open>The file lookup\<close>

lemma path_join_prefix: "\<not> prefix ''/'' b \<Longrightarrow> prefix a (path_join a b)"
  by (simp add: path_join_def)

text \<open>
  C10. A key whose normalized path contains \<^verbatim>\<open>..\<close> or starts with \<^verbatim>\<open>/\<close> gives \<open>None\<close>. A
  path that is returned is the wildcard directory joined with the normalized key, it
  starts with the wildcard directory, and the normalized key has no \<^verbatim>\<open>..\<close> in it and
  does not start with \<^verbatim>\<open>/\<close>.
\<close>

theorem find_wildcard_file_rejects_traversal:
  "(is_infix ''..'' (normpath key) \<or> prefix ''/'' (normpath key)
      \<longrightarrow> find_wildcard_file e key = None)
   \<and> (find_wildcard_file e key = Some p
      \<longrightarrow> prefix (wildcards_path e) p \<and> p = path_join (wildcards_path e) (normpath key)
          \<and> \<not> is_infix ''..'' (normpath key) \<and> \<not> prefix ''/'' (normpath key))"
  by (auto simp: find_wildcard_file_def Let_def split: if_splits)

theorem find_wildcard_file_rejects_traversal_witness:
  "find_wildcard_file
     \<lparr>files = [''/etc/passwd'' \<mapsto> [''root'']], wildcards_path = ''/w''\<rparr>
     ''a/../../etc/passwd'' = None
   \<and> find_wildcard_file
     \<lparr>files = [''/etc/passwd'' \<mapsto> [''root'']], wildcards_path = ''/w''\<rparr>
     ''/etc/passwd'' = None
   \<and> find_wildcard_file
     \<lparr>files = [''/w/dragon'' \<mapsto> [''red'']], wildcards_path = ''/w''\<rparr>
     ''x/../dragon'' = Some ''/w/dragon''"
  using find_wildcard_file_rejects_traversal
    [of "''a/../../etc/passwd''"
        "\<lparr>files = [''/etc/passwd'' \<mapsto> [''root'']], wildcards_path = ''/w''\<rparr>"]
  by (simp add: normpath_def find_wildcard_file_def path_join_def Let_def suffix_to_prefix)

section \<open>The lookup of a key that has no file of its own name\<close>

text \<open>
  For a key whose normalized path has no \<^verbatim>\<open>..\<close> and no leading \<^verbatim>\<open>/\<close>, \<open>find_wildcard_file\<close>
  always returns a path: the directory joined with the key, with no extension added and
  whether or not a file is there. A key that is not in the cache is therefore settled in
  phase 2, by what \<open>open\<close> does with this path, and the availability index is not read.
\<close>

lemma find_wildcard_file_wellformed:
  "\<not> is_infix ''..'' (normpath key) \<Longrightarrow> \<not> prefix ''/'' (normpath key) \<Longrightarrow>
     find_wildcard_file e key = Some (path_join (wildcards_path e) (normpath key))"
  by (simp add: find_wildcard_file_def Let_def path_join_prefix)

lemma get_wildcard_value_phase2:
  assumes "loaded_wildcards st key = None"
    and "\<not> is_infix ''..'' (normpath key)" and "\<not> prefix ''/'' (normpath key)"
  shows "get_wildcard_value (Suc depth) e st key =
     (case files e (path_join (wildcards_path e) (normpath key)) of
        None \<Rightarrow> (Inl OSError, st)
      | Some lines \<Rightarrow>
          (Inr (Some (load_txt_wildcard lines)),
           st\<lparr>loaded_wildcards := (loaded_wildcards st)(key \<mapsto> load_txt_wildcard lines)\<rparr>))"
  using assms by (simp add: find_wildcard_file_wellformed Let_def split: option.splits)





section \<open>The lines of a wildcard file\<close>






section \<open>The comment stripper\<close>







lemma join_Cons: "rs \<noteq> [] \<Longrightarrow> join sep (r # rs) = r @ sep @ join sep rs"
  by (cases rs) simp_all






end
